theory Spec2Isabelle
  imports Main
begin

section \<open>The mDNS request handler of designate (designate/mdns/handler.py)\<close>

subsection \<open>DNS messages as the handler sees them\<close>

text \<open>
  The wire codec (dnspython) is a library outside the repository. The handler only
  reads the opcode, the question section and the environment of a request, and only
  writes the rcode, the flags and the answer section of a response, so a message is a
  record of exactly these parts. \<open>dns.opcode\<close>, \<open>dns.rcode\<close> and \<open>dns.flags\<close> are
  enumerations; record classes and record types stay numbers, as in dnspython.
\<close>

datatype opcode = QUERY | IQUERY | STATUS | NOTIFY | UPDATE | OtherOpcode nat

datatype rcode = NOERROR | FORMERR | SERVFAIL | NXDOMAIN | NOTIMP | REFUSED | NOTAUTH

datatype flag = QR | AA | TC | RD | RA | AD | CD

definition rdataclass_IN :: nat where
  "rdataclass_IN = 1"

definition rdatatype_AXFR :: nat where
  "rdatatype_AXFR = 252"

definition rdatatype_IXFR :: nat where
  "rdatatype_IXFR = 251"

record question =
  q_name :: string
  q_rdclass :: nat
  q_rdtype :: nat

record tsig_key =
  scope :: string
  resource_id :: string

record environ =
  env_context :: string
  env_addr :: "string \<times> nat"
  env_tsigkey :: "tsig_key option"

record request =
  req_id :: nat
  req_opcode :: opcode
  req_flags :: "flag set"
  req_question :: "question list"
  req_environ :: environ

text \<open>
  A resource-record-set of dnspython (\<open>dns.rrset.RRset\<close>): a parsed name, a TTL, a
  class, a parsed type and its rdatas. The rdatas are a set kept in insertion order, so
  \<open>rr_items\<close> never holds an rdata twice. A parsed name and a parsed rdata are
  named here by a canonical text.
\<close>

type_synonym rdata = string

record rrset =
  rr_name :: string
  rr_ttl :: int
  rr_rdclass :: nat
  rr_rdtype :: nat
  rr_items :: "rdata list"

text \<open>
  The answer section holds what the handler stores there. The handler can store
  \<open>None\<close> (a projection that emitted nothing), so the entries are optional.
\<close>

record response =
  resp_id :: nat
  resp_opcode :: opcode
  resp_flags :: "flag set"
  resp_rcode :: rcode
  resp_question :: "question list"
  resp_answer :: "rrset option list"

text \<open>
  \<open>dns.message.make_response(request)\<close>: a fresh message with the request's id,
  opcode and question, the QR flag, the request's RD flag, rcode NOERROR and no answer.
\<close>

definition make_response :: "request \<Rightarrow> response" where
  "make_response request =
     \<lparr>resp_id = req_id request,
      resp_opcode = req_opcode request,
      resp_flags = {QR} \<union> (req_flags request \<inter> {RD}),
      resp_rcode = NOERROR,
      resp_question = req_question request,
      resp_answer = []\<rparr>"

subsection \<open>Stored objects\<close>

record zone_record =
  action :: string
  data :: string

record recordset =
  rs_domain_id :: string
  rs_name :: string
  rs_type :: string
  rs_ttl :: "int option"
  rs_records :: "zone_record list"

record domain =
  d_id :: string
  d_pool_id :: string
  d_name :: string
  d_serial :: nat
  d_ttl :: int
  d_type :: string
  d_masters :: "string list"
  d_deleted :: bool

text \<open>
  Modelled from the spec: \<open>Domain.get_master_by_ip\<close> is a method of the storage
  objects, which are not among the sources. The spec says that the sender's address is
  checked against the zone's registered master addresses; the method returns the
  matching master, or a false value (here \<open>None\<close>) when there is none.
\<close>

definition get_master_by_ip :: "domain \<Rightarrow> string \<Rightarrow> string option" where
  "get_master_by_ip domain host =
     (if host \<in> set (d_masters domain) then Some host else None)"

subsection \<open>Criteria, errors, collaborators\<close>

datatype cval = Str string | Bool bool

type_synonym criterion = "string \<rightharpoonup> cval"

text \<open>
  The exceptions the handler raises, catches or lets pass. \<open>DomainNotFound\<close> and
  \<open>RecordSetNotFound\<close> are subclasses of \<open>NotFound\<close> in \<open>designate.exceptions\<close>, so
  \<open>except exceptions.NotFound\<close> catches the three of them. \<open>NotImplementedError\<close> and
  \<open>IndexError\<close> are Python's own; \<open>DNSException\<close> stands for an exception of
  dnspython: a failure of the resolver (timeout, no answer, no name servers) or of a
  parser (a syntax error, an unknown record type). \<open>StorageError\<close> stands for any
  other failure of the storage backend.
\<close>

datatype exc =
  DomainNotFound | RecordSetNotFound | NotFound | Forbidden
  | NotImplementedError | IndexError | DNSException | StorageError

definition is_NotFound :: "exc \<Rightarrow> bool" where
  "is_NotFound e = (e = NotFound \<or> e = DomainNotFound \<or> e = RecordSetNotFound)"

record soa_rdata =
  soa_serial :: nat

text \<open>
  The collaborators: the storage backend (\<open>self.storage\<close>), the resolver
  (\<open>dns.resolver.Resolver\<close>, called with its name servers, a name and a record type)
  and the parsers and printers of dnspython (\<open>dns.name.from_text\<close>,
  \<open>dns.rdatatype.from_text\<close>, \<open>dns.rdata.from_text\<close> with a class, a type and a
  text, \<open>dns.rdatatype.to_text\<close>). They are parameters of the handler, and each of
  them that can raise returns an exception or a value.
\<close>

record collab =
  find_domain :: "string \<Rightarrow> criterion \<Rightarrow> exc + domain"
  find_recordset :: "string \<Rightarrow> criterion \<Rightarrow> exc + recordset"
  find_recordsets :: "string \<Rightarrow> criterion \<Rightarrow> exc + recordset list"
  resolver_query :: "string list \<Rightarrow> string \<Rightarrow> string \<Rightarrow> exc + soa_rdata list"
  name_from_text :: "string \<Rightarrow> exc + string"
  rdatatype_from_text :: "string \<Rightarrow> exc + nat"
  rdata_from_text :: "nat \<Rightarrow> nat \<Rightarrow> string \<Rightarrow> exc + rdata"
  rdatatype_to_text :: "nat \<Rightarrow> string"

text \<open>\<open>CONF['service:mdns'].query_enforce_tsig\<close> and \<open>CONF['service:central'].default_pool_id\<close>.\<close>

record config =
  query_enforce_tsig :: bool
  default_pool_id :: string

text \<open>
  What the handler does to the world: the threads handed to the thread group
  (\<open>self.tg.add_thread(self.domain_sync, context, domain, [master_addr])\<close>) and the
  queries sent through the resolver, both in order.
\<close>

datatype task = DomainSync string domain "string list"

record world =
  threads :: "task list"
  soa_queries :: "(string list \<times> string \<times> string) list"

subsection \<open>The handler\<close>

definition handle_query_error :: "request \<Rightarrow> rcode \<Rightarrow> response" where
  "handle_query_error request rc = (make_response request)\<lparr>resp_rcode := rc\<rparr>"

text \<open>
  \<open>_domain_criterion_from_request\<close>. \<open>criterion or {}\<close> replaces a missing or empty
  criterion by an empty dictionary, which has the same entries.
\<close>

definition domain_criterion_from_request ::
  "config \<Rightarrow> request \<Rightarrow> criterion option \<Rightarrow> exc + criterion" where
  "domain_criterion_from_request conf request criterion0 =
     (let criterion = (case criterion0 of None \<Rightarrow> Map.empty | Some c \<Rightarrow> c) in
      case env_tsigkey (req_environ request) of
        None \<Rightarrow>
          if query_enforce_tsig conf then Inl Forbidden
          else Inr (criterion(''pool_id'' \<mapsto> Str (default_pool_id conf)))
      | Some key \<Rightarrow>
          if scope key = ''POOL'' then Inr (criterion(''pool_id'' \<mapsto> Str (resource_id key)))
          else if scope key = ''ZONE'' then Inr (criterion(''id'' \<mapsto> Str (resource_id key)))
          else Inl NotImplementedError)"

text \<open>The loop of \<open>_convert_to_rrset\<close> over the records, with its accumulator \<open>rdata\<close>.\<close>

fun collect_rdata :: "zone_record list \<Rightarrow> string list \<Rightarrow> string list" where
  "collect_rdata [] rdata = rdata"
| "collect_rdata (r # rs) rdata =
     collect_rdata rs (if action r \<noteq> ''DELETE'' then rdata @ [data r] else rdata)"

text \<open>
  \<open>dns.rrset.from_text_list(name, ttl, rdclass, rdtype, text_rdatas)\<close> of dnspython: it
  parses the name and the type when they are given as text (the class is given as a
  number here), then parses each text in turn and adds the rdata to the set, which keeps
  an rdata it already holds once. The first parser that raises ends it.
\<close>

fun add_rdatas :: "collab \<Rightarrow> nat \<Rightarrow> nat \<Rightarrow> string list \<Rightarrow> rdata list \<Rightarrow> exc + rdata list" where
  "add_rdatas st rdclass rdtype [] items = Inr items"
| "add_rdatas st rdclass rdtype (t # ts) items =
     (case rdata_from_text st rdclass rdtype t of
        Inl e \<Rightarrow> Inl e
      | Inr rd \<Rightarrow>
          add_rdatas st rdclass rdtype ts (if rd \<in> set items then items else items @ [rd]))"

definition from_text_list ::
  "collab \<Rightarrow> string \<Rightarrow> int \<Rightarrow> nat \<Rightarrow> string \<Rightarrow> string list \<Rightarrow> exc + rrset" where
  "from_text_list st name ttl rdclass rdtype text_rdatas =
     (case name_from_text st name of
        Inl e \<Rightarrow> Inl e
      | Inr parsed_name \<Rightarrow>
          (case rdatatype_from_text st rdtype of
             Inl e \<Rightarrow> Inl e
           | Inr parsed_type \<Rightarrow>
               (case add_rdatas st rdclass parsed_type text_rdatas [] of
                  Inl e \<Rightarrow> Inl e
                | Inr items \<Rightarrow>
                    Inr \<lparr>rr_name = parsed_name, rr_ttl = ttl, rr_rdclass = rdclass,
                         rr_rdtype = parsed_type, rr_items = items\<rparr>)))"

text \<open>
  \<open>_convert_to_rrset\<close>. \<open>if recordset.ttl:\<close> is Python's truth test: it fails for
  \<open>None\<close> and for \<open>0\<close>. An exception of \<open>from_text_list\<close> is not caught here.
\<close>

definition convert_to_rrset :: "collab \<Rightarrow> domain \<Rightarrow> recordset \<Rightarrow> exc + rrset option" where
  "convert_to_rrset st domain recordset =
     (let ttl = (case rs_ttl recordset of
                   None \<Rightarrow> d_ttl domain
                 | Some t \<Rightarrow> if t \<noteq> 0 then t else d_ttl domain);
          rdata = collect_rdata (rs_records recordset) []
      in if rdata \<noteq> [] then
           (case from_text_list st (rs_name recordset) ttl rdataclass_IN (rs_type recordset) rdata of
              Inl e \<Rightarrow> Inl e
            | Inr r_rrset \<Rightarrow> Inr (Some r_rrset))
         else Inr None)"

text \<open>
  The three loops of \<open>_handle_axfr\<close> that fill \<open>r_rrsets\<close>; a projection that raises
  ends them. \<open>if r_rrset:\<close> is Python's truth test: it fails for \<open>None\<close> and for an
  rrset with no rdata.
\<close>

fun append_all ::
  "collab \<Rightarrow> domain \<Rightarrow> recordset list \<Rightarrow> rrset option list \<Rightarrow> exc + rrset option list" where
  "append_all st domain [] r_rrsets = Inr r_rrsets"
| "append_all st domain (recordset # rest) r_rrsets =
     (case convert_to_rrset st domain recordset of
        Inl e \<Rightarrow> Inl e
      | Inr r_rrset \<Rightarrow> append_all st domain rest (r_rrsets @ [r_rrset]))"

definition truthy :: "rrset option \<Rightarrow> bool" where
  "truthy r_rrset = (case r_rrset of None \<Rightarrow> False | Some r \<Rightarrow> rr_items r \<noteq> [])"

fun append_nonempty ::
  "collab \<Rightarrow> domain \<Rightarrow> recordset list \<Rightarrow> rrset option list \<Rightarrow> exc + rrset option list" where
  "append_nonempty st domain [] r_rrsets = Inr r_rrsets"
| "append_nonempty st domain (recordset # rest) r_rrsets =
     (case convert_to_rrset st domain recordset of
        Inl e \<Rightarrow> Inl e
      | Inr r_rrset \<Rightarrow>
          append_nonempty st domain rest
            (if truthy r_rrset then r_rrsets @ [r_rrset] else r_rrsets))"

text \<open>
  \<open>_handle_axfr\<close>. The \<open>try\<close> block builds the criterion and looks the zone up; its
  two \<open>except\<close> clauses answer REFUSED, every other exception passes. The two calls of
  \<open>find_recordsets\<close> and the three loops are outside the \<open>try\<close>.
\<close>

definition axfr_find_domain :: "collab \<Rightarrow> config \<Rightarrow> request \<Rightarrow> question \<Rightarrow> exc + domain" where
  "axfr_find_domain st conf request q_rrset =
     (case domain_criterion_from_request conf request (Some [''name'' \<mapsto> Str (q_name q_rrset)]) of
        Inl e \<Rightarrow> Inl e
      | Inr criterion \<Rightarrow> find_domain st (env_context (req_environ request)) criterion)"

definition handle_axfr :: "collab \<Rightarrow> config \<Rightarrow> request \<Rightarrow> exc + response" where
  "handle_axfr st conf request =
     (let ctx = env_context (req_environ request);
          response = make_response request in
      case req_question request of
        [] \<Rightarrow> Inl IndexError
      | q_rrset # _ \<Rightarrow>
          (case axfr_find_domain st conf request q_rrset of
             Inl e \<Rightarrow>
               if e = DomainNotFound then Inr (handle_query_error request REFUSED)
               else if e = Forbidden then Inr (handle_query_error request REFUSED)
               else Inl e
           | Inr domain \<Rightarrow>
               (case find_recordsets st ctx
                       [''domain_id'' \<mapsto> Str (d_id domain), ''type'' \<mapsto> Str ''SOA''] of
                  Inl e \<Rightarrow> Inl e
                | Inr soa_recordsets \<Rightarrow>
                    (case append_all st domain soa_recordsets [] of
                       Inl e \<Rightarrow> Inl e
                     | Inr r_rrsets1 \<Rightarrow>
                         (case find_recordsets st ctx
                                 [''domain_id'' \<mapsto> Str (d_id domain), ''type'' \<mapsto> Str ''!SOA''] of
                            Inl e \<Rightarrow> Inl e
                          | Inr recordsets \<Rightarrow>
                              (case append_nonempty st domain recordsets r_rrsets1 of
                                 Inl e \<Rightarrow> Inl e
                               | Inr r_rrsets2 \<Rightarrow>
                                   (case append_all st domain soa_recordsets r_rrsets2 of
                                      Inl e \<Rightarrow> Inl e
                                    | Inr r_rrsets \<Rightarrow>
                                        Inr (response\<lparr>resp_rcode := NOERROR,
                                               resp_answer := r_rrsets,
                                               resp_flags := resp_flags response \<union> {AA}\<rparr>))))))))"

text \<open>
  \<open>_handle_record_query\<close>. The inner \<open>try\<close> catches \<open>DomainNotFound\<close> and
  \<open>Forbidden\<close>; the outer one catches \<open>NotFound\<close> with its subclasses and
  \<open>Forbidden\<close>. \<open>request.question[0]\<close> is read and the record-set is projected
  inside the outer \<open>try\<close>.
\<close>

definition record_query_find_domain ::
  "collab \<Rightarrow> config \<Rightarrow> request \<Rightarrow> recordset \<Rightarrow> exc + domain" where
  "record_query_find_domain st conf request recordset =
     (case domain_criterion_from_request conf request (Some [''id'' \<mapsto> Str (rs_domain_id recordset)]) of
        Inl e \<Rightarrow> Inl e
      | Inr criterion \<Rightarrow> find_domain st (env_context (req_environ request)) criterion)"

definition record_query_except :: "response \<Rightarrow> exc \<Rightarrow> exc + response" where
  "record_query_except response e =
     (if is_NotFound e then Inr (response\<lparr>resp_rcode := REFUSED\<rparr>)
      else if e = Forbidden then Inr (response\<lparr>resp_rcode := REFUSED\<rparr>)
      else Inl e)"

definition handle_record_query :: "collab \<Rightarrow> config \<Rightarrow> request \<Rightarrow> exc + response" where
  "handle_record_query st conf request =
     (let ctx = env_context (req_environ request);
          response = make_response request in
      case req_question request of
        [] \<Rightarrow> record_query_except response IndexError
      | q_rrset # _ \<Rightarrow>
          (case find_recordset st ctx
                  [''name'' \<mapsto> Str (q_name q_rrset),
                   ''type'' \<mapsto> Str (rdatatype_to_text st (q_rdtype q_rrset)),
                   ''domains_deleted'' \<mapsto> Bool False] of
             Inl e \<Rightarrow> record_query_except response e
           | Inr recordset \<Rightarrow>
               (case record_query_find_domain st conf request recordset of
                  Inl e \<Rightarrow>
                    if e = DomainNotFound then Inr (handle_query_error request REFUSED)
                    else if e = Forbidden then Inr (handle_query_error request REFUSED)
                    else record_query_except response e
                | Inr domain \<Rightarrow>
                    (case convert_to_rrset st domain recordset of
                       Inl e \<Rightarrow> record_query_except response e
                     | Inr r_rrset \<Rightarrow>
                         Inr (response\<lparr>resp_rcode := NOERROR, resp_answer := [r_rrset],
                                resp_flags := resp_flags response \<union> {AA}\<rparr>)))))"

text \<open>
  \<open>_handle_notify\<close>. Only \<open>DomainNotFound\<close> is caught; the resolver is called outside
  any \<open>try\<close>. The query is recorded before its outcome is known.
\<close>

definition handle_notify :: "collab \<Rightarrow> request \<Rightarrow> world \<Rightarrow> (exc + response) \<times> world" where
  "handle_notify st request w =
     (let ctx = env_context (req_environ request);
          response = make_response request in
      if length (req_question request) \<noteq> 1 then (Inr (response\<lparr>resp_rcode := FORMERR\<rparr>), w)
      else
        (let question = hd (req_question request);
             criterion = [''name'' \<mapsto> Str (q_name question),
                          ''type'' \<mapsto> Str ''SECONDARY'',
                          ''deleted'' \<mapsto> Bool False] in
         case find_domain st ctx criterion of
           Inl e \<Rightarrow>
             if e = DomainNotFound then (Inr (response\<lparr>resp_rcode := NOTAUTH\<rparr>), w)
             else (Inl e, w)
         | Inr domain \<Rightarrow>
             (let notify_addr = fst (env_addr (req_environ request)) in
              case get_master_by_ip domain notify_addr of
                None \<Rightarrow> (Inr (response\<lparr>resp_rcode := REFUSED\<rparr>), w)
              | Some master_addr \<Rightarrow>
                  (let w1 = w\<lparr>soa_queries :=
                                soa_queries w @ [([notify_addr], d_name domain, ''SOA'')]\<rparr> in
                   case resolver_query st [notify_addr] (d_name domain) ''SOA'' of
                     Inl e \<Rightarrow> (Inl e, w1)
                   | Inr [] \<Rightarrow> (Inl IndexError, w1)
                   | Inr (soa # _) \<Rightarrow>
                       (let w2 = (if soa_serial soa = d_serial domain then w1
                                  else w1\<lparr>threads :=
                                           threads w1 @ [DomainSync ctx domain [master_addr]]\<rparr>)
                        in (Inr (response\<lparr>resp_flags := resp_flags response \<union> {AA}\<rparr>), w2))))))"

text \<open>
  \<open>__call__\<close>, the entry point. \<open>len(request.question) != 1 or ...\<close> reads the first
  question only when there is exactly one.
\<close>

definition call :: "collab \<Rightarrow> config \<Rightarrow> request \<Rightarrow> world \<Rightarrow> (exc + response) \<times> world" where
  "call st conf request w =
     (if req_opcode request = QUERY then
        (if length (req_question request) \<noteq> 1
            \<or> q_rdclass (hd (req_question request)) \<noteq> rdataclass_IN
         then (Inr (handle_query_error request REFUSED), w)
         else
           (let q_rrset = hd (req_question request) in
            if q_rdtype q_rrset = rdatatype_AXFR \<or> q_rdtype q_rrset = rdatatype_IXFR
            then (handle_axfr st conf request, w)
            else (handle_record_query st conf request, w)))
      else if req_opcode request = NOTIFY then handle_notify st request w
      else (Inr (handle_query_error request REFUSED), w))"

subsection \<open>Example data\<close>

text \<open>
  A SECONDARY zone with three registered masters, a second zone that a ZONE-scoped key
  names, and a few record-sets: one whose TTL is unset and that holds a record marked
  for deletion, one whose records are all marked for deletion, one whose TTL is 0, one
  that holds the same address twice, one that holds a text that is no address.
\<close>

definition ex_zone :: domain where
  "ex_zone =
     \<lparr>d_id = ''z1'', d_pool_id = ''p1'', d_name = ''example.com.'', d_serial = 10,
      d_ttl = 3600, d_type = ''SECONDARY'',
      d_masters = [''10.0.0.1'', ''10.0.0.2'', ''10.0.0.3''], d_deleted = False\<rparr>"

definition ex_key_zone :: domain where
  "ex_key_zone =
     \<lparr>d_id = ''z2'', d_pool_id = ''p1'', d_name = ''other.org.'', d_serial = 4,
      d_ttl = 300, d_type = ''PRIMARY'', d_masters = [], d_deleted = False\<rparr>"

definition ex_soa_rs :: recordset where
  "ex_soa_rs =
     \<lparr>rs_domain_id = ''z1'', rs_name = ''example.com.'', rs_type = ''SOA'', rs_ttl = None,
      rs_records = [\<lparr>action = ''NONE'', data = ''ns1.example.com. admin.example.com. 10 3600 600 86400 3600''\<rparr>]\<rparr>"

definition ex_a_rs :: recordset where
  "ex_a_rs =
     \<lparr>rs_domain_id = ''z1'', rs_name = ''example.com.'', rs_type = ''A'', rs_ttl = None,
      rs_records = [\<lparr>action = ''CREATE'', data = ''192.0.2.1''\<rparr>,
                    \<lparr>action = ''DELETE'', data = ''192.0.2.2''\<rparr>,
                    \<lparr>action = ''UPDATE'', data = ''192.0.2.3''\<rparr>]\<rparr>"

definition ex_deleted_rs :: recordset where
  "ex_deleted_rs =
     \<lparr>rs_domain_id = ''z1'', rs_name = ''old.example.com.'', rs_type = ''TXT'', rs_ttl = Some 60,
      rs_records = [\<lparr>action = ''DELETE'', data = ''gone''\<rparr>,
                    \<lparr>action = ''DELETE'', data = ''gone too''\<rparr>]\<rparr>"

definition ex_zero_ttl_rs :: recordset where
  "ex_zero_ttl_rs =
     \<lparr>rs_domain_id = ''z1'', rs_name = ''now.example.com.'', rs_type = ''A'', rs_ttl = Some 0,
      rs_records = [\<lparr>action = ''NONE'', data = ''192.0.2.9''\<rparr>]\<rparr>"

definition ex_dup_rs :: recordset where
  "ex_dup_rs =
     \<lparr>rs_domain_id = ''z1'', rs_name = ''twice.example.com.'', rs_type = ''A'', rs_ttl = Some 60,
      rs_records = [\<lparr>action = ''NONE'', data = ''192.0.2.1''\<rparr>,
                    \<lparr>action = ''NONE'', data = ''192.0.2.1''\<rparr>,
                    \<lparr>action = ''NONE'', data = ''192.0.2.3''\<rparr>]\<rparr>"

definition ex_bad_rs :: recordset where
  "ex_bad_rs =
     \<lparr>rs_domain_id = ''z1'', rs_name = ''bad.example.com.'', rs_type = ''A'', rs_ttl = Some 60,
      rs_records = [\<lparr>action = ''NONE'', data = ''192.0.2.1''\<rparr>,
                    \<lparr>action = ''NONE'', data = ''not an address''\<rparr>]\<rparr>"

text \<open>
  A storage backend holding the two zones and the record-sets of the first, a resolver
  for which the first master reports the stored serial, the second a newer one, and
  every other server does not answer, and parsers that know the types A, SOA and TXT
  and refuse one text.
\<close>

definition ex_find_domain :: "string \<Rightarrow> criterion \<Rightarrow> exc + domain" where
  "ex_find_domain ctx c =
     (if c ''id'' = Some (Str ''z2'') then Inr ex_key_zone
      else if c ''id'' = Some (Str ''z1'') \<or> c ''name'' = Some (Str ''example.com.'')
      then Inr ex_zone
      else Inl DomainNotFound)"

definition ex_find_recordset :: "string \<Rightarrow> criterion \<Rightarrow> exc + recordset" where
  "ex_find_recordset ctx c =
     (if c ''name'' = Some (Str ''example.com.'') \<and> c ''type'' = Some (Str ''A'')
      then Inr ex_a_rs
      else Inl RecordSetNotFound)"

definition ex_find_recordsets :: "string \<Rightarrow> criterion \<Rightarrow> exc + recordset list" where
  "ex_find_recordsets ctx c =
     (if c ''type'' = Some (Str ''SOA'') then Inr [ex_soa_rs] else Inr [ex_a_rs, ex_deleted_rs])"

definition ex_failing_find_recordsets :: "string \<Rightarrow> criterion \<Rightarrow> exc + recordset list" where
  "ex_failing_find_recordsets ctx c = Inl StorageError"

definition ex_name_from_text :: "string \<Rightarrow> exc + string" where
  "ex_name_from_text name = Inr name"

definition ex_rdatatype_from_text :: "string \<Rightarrow> exc + nat" where
  "ex_rdatatype_from_text rdtype =
     (if rdtype = ''A'' then Inr 1 else if rdtype = ''SOA'' then Inr 6
      else if rdtype = ''TXT'' then Inr 16 else Inl DNSException)"

definition ex_rdata_from_text :: "nat \<Rightarrow> nat \<Rightarrow> string \<Rightarrow> exc + rdata" where
  "ex_rdata_from_text rdclass rdtype t =
     (if t = ''not an address'' then Inl DNSException else Inr t)"

definition ex_resolver_query :: "string list \<Rightarrow> string \<Rightarrow> string \<Rightarrow> exc + soa_rdata list" where
  "ex_resolver_query nameservers qname rdtype =
     (if nameservers = [''10.0.0.1''] then Inr [\<lparr>soa_serial = 10\<rparr>]
      else if nameservers = [''10.0.0.2''] then Inr [\<lparr>soa_serial = 11\<rparr>]
      else Inl DNSException)"

definition ex_to_text :: "nat \<Rightarrow> string" where
  "ex_to_text rdtype = (if rdtype = 1 then ''A'' else if rdtype = 6 then ''SOA'' else ''TYPE'')"

definition ex_collab :: collab where
  "ex_collab =
     \<lparr>find_domain = ex_find_domain, find_recordset = ex_find_recordset,
      find_recordsets = ex_find_recordsets, resolver_query = ex_resolver_query,
      name_from_text = ex_name_from_text, rdatatype_from_text = ex_rdatatype_from_text,
      rdata_from_text = ex_rdata_from_text, rdatatype_to_text = ex_to_text\<rparr>"

definition ex_conf :: config where
  "ex_conf = \<lparr>query_enforce_tsig = False, default_pool_id = ''p1''\<rparr>"

definition ex_request :: "opcode \<Rightarrow> question list \<Rightarrow> string \<Rightarrow> tsig_key option \<Rightarrow> request" where
  "ex_request op qs sender key =
     \<lparr>req_id = 7, req_opcode = op, req_flags = {RD}, req_question = qs,
      req_environ = \<lparr>env_context = ''ctx'', env_addr = (sender, 5354), env_tsigkey = key\<rparr>\<rparr>"

definition ex_question :: "nat \<Rightarrow> question" where
  "ex_question rdtype = \<lparr>q_name = ''example.com.'', q_rdclass = 1, q_rdtype = rdtype\<rparr>"

definition ex_world :: world where
  "ex_world = \<lparr>threads = [], soa_queries = []\<rparr>"

section \<open>Properties\<close>

lemmas ex_defs =
  ex_zone_def ex_key_zone_def ex_soa_rs_def ex_a_rs_def ex_deleted_rs_def ex_zero_ttl_rs_def
  ex_dup_rs_def ex_bad_rs_def
  ex_find_domain_def ex_find_recordset_def ex_find_recordsets_def ex_failing_find_recordsets_def
  ex_resolver_query_def ex_name_from_text_def ex_rdatatype_from_text_def ex_rdata_from_text_def
  ex_to_text_def ex_collab_def ex_conf_def ex_request_def ex_question_def ex_world_def

subsection \<open>Projection of a record-set\<close>




lemma add_rdatas_nonempty:
  "add_rdatas st rdclass rdtype ts items = Inr res \<Longrightarrow> ts \<noteq> [] \<or> items \<noteq> [] \<Longrightarrow> res \<noteq> []"
proof (induction ts arbitrary: items)
  case Nil
  then show ?case by simp
next
  case (Cons t ts)
  from Cons.prems(1) obtain rd where
    rec: "add_rdatas st rdclass rdtype ts (if rd \<in> set items then items else items @ [rd]) = Inr res"
    by (cases "rdata_from_text st rdclass rdtype t") simp_all
  have "(if rd \<in> set items then items else items @ [rd]) \<noteq> []"
    by auto
  with Cons.IH [OF rec] show ?case
    by blast
qed

lemma convert_to_rrset_truthy:
  "convert_to_rrset st domain recordset = Inr r \<Longrightarrow> truthy r = (r \<noteq> None)"
  by (auto simp add: convert_to_rrset_def from_text_list_def truthy_def Let_def
      split: if_splits sum.splits dest: add_rdatas_nonempty)




text \<open>
  C5. Effective TTL: the spec says that a record-set whose TTL is set, the value 0
  included, keeps its own TTL. The code tests the truth value of the TTL, so a record-set
  with TTL 0 in a zone with TTL 3600 is emitted with TTL 3600.
\<close>

theorem convert_to_rrset_zero_ttl:
  "rs_ttl ex_zero_ttl_rs = Some 0
   \<and> d_ttl ex_zone = 3600
   \<and> convert_to_rrset ex_collab ex_zone ex_zero_ttl_rs =
       Inr (Some \<lparr>rr_name = ''now.example.com.'', rr_ttl = 3600, rr_rdclass = 1,
                  rr_rdtype = 1, rr_items = [''192.0.2.9'']\<rparr>)"
  by (simp add: convert_to_rrset_def from_text_list_def rdataclass_IN_def ex_zero_ttl_rs_def
      ex_zone_def ex_collab_def ex_name_from_text_def ex_rdatatype_from_text_def
      ex_rdata_from_text_def)

subsection \<open>Criterion building\<close>

text \<open>
  C6. TSIG criterion policy: criterion building (a) fails with Forbidden when no key is
  attached and signed queries are enforced; (b) sets pool_id to the default pool id when
  no key is attached and signing is not enforced; (c) sets pool_id to the key's resource
  id for a key of scope POOL; (d) sets id to the key's resource id for a key of scope
  ZONE; where it does not fail, every other entry is that of the base criterion.
\<close>

theorem criterion_policy:
  "(env_tsigkey (req_environ request) = None \<and> query_enforce_tsig conf \<longrightarrow>
      domain_criterion_from_request conf request criterion0 = Inl Forbidden)
   \<and> (env_tsigkey (req_environ request) = None \<and> \<not> query_enforce_tsig conf \<longrightarrow>
      (\<exists>c. domain_criterion_from_request conf request criterion0 = Inr c
           \<and> c ''pool_id'' = Some (Str (default_pool_id conf))
           \<and> (\<forall>k. k \<noteq> ''pool_id'' \<longrightarrow>
                 c k = (case criterion0 of None \<Rightarrow> None | Some base \<Rightarrow> base k))))
   \<and> (env_tsigkey (req_environ request) = Some key \<and> scope key = ''POOL'' \<longrightarrow>
      (\<exists>c. domain_criterion_from_request conf request criterion0 = Inr c
           \<and> c ''pool_id'' = Some (Str (resource_id key))
           \<and> (\<forall>k. k \<noteq> ''pool_id'' \<longrightarrow>
                 c k = (case criterion0 of None \<Rightarrow> None | Some base \<Rightarrow> base k))))
   \<and> (env_tsigkey (req_environ request) = Some key \<and> scope key = ''ZONE'' \<longrightarrow>
      (\<exists>c. domain_criterion_from_request conf request criterion0 = Inr c
           \<and> c ''id'' = Some (Str (resource_id key))
           \<and> (\<forall>k. k \<noteq> ''id'' \<longrightarrow>
                 c k = (case criterion0 of None \<Rightarrow> None | Some base \<Rightarrow> base k))))"
  by (simp add: domain_criterion_from_request_def split: option.split)

text \<open>
  The four cases on a request for example.com., with the base criterion holding the name.
\<close>

theorem criterion_policy_witness:
  "domain_criterion_from_request (ex_conf\<lparr>query_enforce_tsig := True\<rparr>)
       (ex_request QUERY [ex_question 1] ''10.0.0.9'' None)
       (Some [''name'' \<mapsto> Str ''example.com.'']) = Inl Forbidden
   \<and> (\<exists>c. domain_criterion_from_request ex_conf
            (ex_request QUERY [ex_question 1] ''10.0.0.9'' None)
            (Some [''name'' \<mapsto> Str ''example.com.'']) = Inr c
          \<and> c ''pool_id'' = Some (Str ''p1'') \<and> c ''name'' = Some (Str ''example.com.''))
   \<and> (\<exists>c. domain_criterion_from_request ex_conf
            (ex_request QUERY [ex_question 1] ''10.0.0.9''
               (Some \<lparr>scope = ''POOL'', resource_id = ''p2''\<rparr>))
            (Some [''name'' \<mapsto> Str ''example.com.'']) = Inr c
          \<and> c ''pool_id'' = Some (Str ''p2'') \<and> c ''name'' = Some (Str ''example.com.''))
   \<and> (\<exists>c. domain_criterion_from_request ex_conf
            (ex_request QUERY [ex_question 1] ''10.0.0.9''
               (Some \<lparr>scope = ''ZONE'', resource_id = ''z2''\<rparr>))
            (Some [''name'' \<mapsto> Str ''example.com.'']) = Inr c
          \<and> c ''id'' = Some (Str ''z2'') \<and> c ''name'' = Some (Str ''example.com.''))"
  using
    criterion_policy [where request = "ex_request QUERY [ex_question 1] ''10.0.0.9'' None"
      and conf = "ex_conf\<lparr>query_enforce_tsig := True\<rparr>"
      and ?criterion0.0 = "Some [''name'' \<mapsto> Str ''example.com.'']"]
    criterion_policy [where request = "ex_request QUERY [ex_question 1] ''10.0.0.9'' None"
      and conf = ex_conf and ?criterion0.0 = "Some [''name'' \<mapsto> Str ''example.com.'']"]
    criterion_policy [where request = "ex_request QUERY [ex_question 1] ''10.0.0.9''
               (Some \<lparr>scope = ''POOL'', resource_id = ''p2''\<rparr>)"
      and key = "\<lparr>scope = ''POOL'', resource_id = ''p2''\<rparr>" and conf = ex_conf
      and ?criterion0.0 = "Some [''name'' \<mapsto> Str ''example.com.'']"]
    criterion_policy [where request = "ex_request QUERY [ex_question 1] ''10.0.0.9''
               (Some \<lparr>scope = ''ZONE'', resource_id = ''z2''\<rparr>)"
      and key = "\<lparr>scope = ''ZONE'', resource_id = ''z2''\<rparr>" and conf = ex_conf
      and ?criterion0.0 = "Some [''name'' \<mapsto> Str ''example.com.'']"]
  by (simp add: ex_conf_def ex_request_def) fastforce

text \<open>
  C4. Unsupported TSIG scope: the spec says that criterion building fails with the
  unsupported-scope error for a key whose scope is neither POOL nor ZONE, and that every
  caller maps that failure to REFUSED. The first half holds (the error is Python's
  NotImplementedError). The callers catch DomainNotFound, NotFound and Forbidden only,
  so the error leaves the AXFR responder, and it leaves the record-query responder once
  the record-set has been found.
\<close>

theorem unsupported_scope_propagates:
  assumes "env_tsigkey (req_environ request) = Some key"
    and "scope key \<noteq> ''POOL''" and "scope key \<noteq> ''ZONE''"
  shows "domain_criterion_from_request conf request criterion0 = Inl NotImplementedError
         \<and> (req_question request \<noteq> [] \<longrightarrow> handle_axfr st conf request = Inl NotImplementedError)
         \<and> (\<forall>q_rrset qs recordset.
               req_question request = q_rrset # qs
               \<and> find_recordset st (env_context (req_environ request))
                    [''name'' \<mapsto> Str (q_name q_rrset),
                     ''type'' \<mapsto> Str (rdatatype_to_text st (q_rdtype q_rrset)),
                     ''domains_deleted'' \<mapsto> Bool False] = Inr recordset
               \<longrightarrow> handle_record_query st conf request = Inl NotImplementedError)"
proof -
  have c: "\<And>c0. domain_criterion_from_request conf request c0 = Inl NotImplementedError"
    using assms by (simp add: domain_criterion_from_request_def)
  show ?thesis
  proof (intro conjI impI allI)
    show "domain_criterion_from_request conf request criterion0 = Inl NotImplementedError"
      by (rule c)
  next
    assume "req_question request \<noteq> []"
    then show "handle_axfr st conf request = Inl NotImplementedError"
      by (cases "req_question request") (simp_all add: handle_axfr_def axfr_find_domain_def c)
  next
    fix q_rrset qs recordset
    assume "req_question request = q_rrset # qs
               \<and> find_recordset st (env_context (req_environ request))
                    [''name'' \<mapsto> Str (q_name q_rrset),
                     ''type'' \<mapsto> Str (rdatatype_to_text st (q_rdtype q_rrset)),
                     ''domains_deleted'' \<mapsto> Bool False] = Inr recordset"
    then show "handle_record_query st conf request = Inl NotImplementedError"
      by (simp add: handle_record_query_def record_query_find_domain_def c
          record_query_except_def is_NotFound_def)
  qed
qed

text \<open>
  A key of scope USER on a request for example.com., through both responders.
\<close>

theorem unsupported_scope_propagates_witness:
  "domain_criterion_from_request ex_conf
      (ex_request QUERY [ex_question 1] ''10.0.0.9'' (Some \<lparr>scope = ''USER'', resource_id = ''u1''\<rparr>))
      (Some [''name'' \<mapsto> Str ''example.com.'']) = Inl NotImplementedError
   \<and> handle_axfr ex_collab ex_conf
      (ex_request QUERY [ex_question 1] ''10.0.0.9'' (Some \<lparr>scope = ''USER'', resource_id = ''u1''\<rparr>))
      = Inl NotImplementedError
   \<and> handle_record_query ex_collab ex_conf
      (ex_request QUERY [ex_question 1] ''10.0.0.9'' (Some \<lparr>scope = ''USER'', resource_id = ''u1''\<rparr>))
      = Inl NotImplementedError"
proof -
  let ?key = "\<lparr>scope = ''USER'', resource_id = ''u1''\<rparr>"
  let ?request = "ex_request QUERY [ex_question 1] ''10.0.0.9'' (Some ?key)"
  have k: "env_tsigkey (req_environ ?request) = Some ?key" "scope ?key \<noteq> ''POOL''" "scope ?key \<noteq> ''ZONE''"
    by (simp_all add: ex_request_def)
  have q: "req_question ?request = ex_question 1 # []"
    by (simp add: ex_request_def)
  have r: "find_recordset ex_collab (env_context (req_environ ?request))
           [''name'' \<mapsto> Str (q_name (ex_question 1)),
            ''type'' \<mapsto> Str (rdatatype_to_text ex_collab (q_rdtype (ex_question 1))),
            ''domains_deleted'' \<mapsto> Bool False] = Inr ex_a_rs"
    by (simp add: ex_collab_def ex_find_recordset_def ex_question_def ex_to_text_def)
  from unsupported_scope_propagates [OF k, where conf = ex_conf
      and ?criterion0.0 = "Some [''name'' \<mapsto> Str ''example.com.'']" and st = ex_collab] q r
  show ?thesis
    by auto
qed

text \<open>
  C4 as the spec states it fails: with a key of scope USER the entry point raises
  NotImplementedError for an AXFR question and for an A question, where a REFUSED
  response is promised.
\<close>

theorem axfr_raises_on_unsupported_scope:
  "fst (call ex_collab ex_conf
      (ex_request QUERY [ex_question 252] ''10.0.0.9'' (Some \<lparr>scope = ''USER'', resource_id = ''u1''\<rparr>))
      ex_world) = Inl NotImplementedError
   \<and> fst (call ex_collab ex_conf
      (ex_request QUERY [ex_question 1] ''10.0.0.9'' (Some \<lparr>scope = ''USER'', resource_id = ''u1''\<rparr>))
      ex_world) = Inl NotImplementedError"
  by (simp add: call_def handle_axfr_def axfr_find_domain_def handle_record_query_def
      record_query_find_domain_def record_query_except_def is_NotFound_def
      domain_criterion_from_request_def ex_defs Let_def
      rdataclass_IN_def rdatatype_AXFR_def rdatatype_IXFR_def)

subsection \<open>Zone transfer\<close>

text \<open>
  The loops of the zone-transfer responder, when every projection succeeds, append to
  what was gathered before: every projection, or every projection that emitted an
  rrset. A loop raises only what a projection raised.
\<close>

lemma append_all_acc:
  "map (convert_to_rrset st d) rss = map Inr ps \<Longrightarrow> append_all st d rss acc = Inr (acc @ ps)"
proof (induction rss arbitrary: ps acc)
  case Nil
  then show ?case by simp
next
  case (Cons rs rss)
  then obtain p ps' where "ps = p # ps'" "convert_to_rrset st d rs = Inr p"
    "map (convert_to_rrset st d) rss = map Inr ps'"
    by (cases ps) auto
  with Cons.IH [of ps' "acc @ [p]"] show ?case by simp
qed

lemma append_nonempty_acc:
  "map (convert_to_rrset st d) rss = map Inr ps \<Longrightarrow>
   append_nonempty st d rss acc = Inr (acc @ filter (\<lambda>r. r \<noteq> None) ps)"
proof (induction rss arbitrary: ps acc)
  case Nil
  then show ?case by simp
next
  case (Cons rs rss)
  then obtain p ps' where p: "ps = p # ps'" "convert_to_rrset st d rs = Inr p"
    "map (convert_to_rrset st d) rss = map Inr ps'"
    by (cases ps) auto
  from p(2) have "truthy p = (p \<noteq> None)" by (rule convert_to_rrset_truthy)
  with p Cons.IH [of ps'] show ?case by simp
qed



text \<open>
  C2. AXFR framing: for an AXFR request whose zone is found (criterion building and the
  zone lookup both succeed) and whose stored record-sets, the SOA ones and the others,
  are returned by the storage and project to \<open>soa_rrsets\<close> and \<open>rrsets\<close>, the
  answer is the projections of the SOA record-sets, then the non-empty projections of the
  other record-sets, then the projections of the SOA record-sets again. With one SOA
  record-set its length is the number of non-SOA record-sets with a non-empty projection
  plus 2; a zone with no other record-set yields SOA, SOA. The rcode is NOERROR and the
  AA flag is set.
\<close>

theorem handle_axfr_framing:
  assumes "req_question request = q_rrset # qs"
    and "domain_criterion_from_request conf request (Some [''name'' \<mapsto> Str (q_name q_rrset)])
           = Inr criterion"
    and "find_domain st (env_context (req_environ request)) criterion = Inr domain"
    and "find_recordsets st (env_context (req_environ request))
           [''domain_id'' \<mapsto> Str (d_id domain), ''type'' \<mapsto> Str ''SOA''] = Inr soa_recordsets"
    and "find_recordsets st (env_context (req_environ request))
           [''domain_id'' \<mapsto> Str (d_id domain), ''type'' \<mapsto> Str ''!SOA''] = Inr recordsets"
    and "map (convert_to_rrset st domain) soa_recordsets = map Inr soa_rrsets"
    and "map (convert_to_rrset st domain) recordsets = map Inr rrsets"
  shows "\<exists>response. handle_axfr st conf request = Inr response
           \<and> resp_answer response =
               soa_rrsets @ filter (\<lambda>r. r \<noteq> None) rrsets @ soa_rrsets
           \<and> (length soa_recordsets = 1 \<longrightarrow>
                length (resp_answer response) =
                  length (filter (\<lambda>r. r \<noteq> None) rrsets) + 2)
           \<and> (recordsets = [] \<longrightarrow> resp_answer response = soa_rrsets @ soa_rrsets)
           \<and> resp_rcode response = NOERROR
           \<and> AA \<in> resp_flags response"
proof -
  from assms(6) have l: "length soa_rrsets = length soa_recordsets"
    by (metis length_map)
  from assms(7) have e: "recordsets = [] \<longrightarrow> rrsets = []"
    by auto
  from assms l e show ?thesis
    by (simp add: handle_axfr_def axfr_find_domain_def Let_def append_all_acc append_nonempty_acc)
qed

text \<open>
  The example zone: one SOA record-set, an A record-set and a record-set whose records
  are all deleted. The answer is SOA, A, SOA.
\<close>

theorem handle_axfr_framing_witness:
  "\<exists>response. handle_axfr ex_collab ex_conf (ex_request QUERY [ex_question 252] ''10.0.0.9'' None)
       = Inr response
     \<and> (\<exists>soa a. convert_to_rrset ex_collab ex_zone ex_soa_rs = Inr (Some soa)
           \<and> convert_to_rrset ex_collab ex_zone ex_a_rs = Inr (Some a)
           \<and> convert_to_rrset ex_collab ex_zone ex_deleted_rs = Inr None
           \<and> resp_answer response = [Some soa, Some a, Some soa])
     \<and> length (resp_answer response) = 3
     \<and> resp_rcode response = NOERROR
     \<and> AA \<in> resp_flags response"
proof -
  let ?request = "ex_request QUERY [ex_question 252] ''10.0.0.9'' None"
  let ?soa = "\<lparr>rr_name = ''example.com.'', rr_ttl = 3600, rr_rdclass = 1, rr_rdtype = 6,
      rr_items = [''ns1.example.com. admin.example.com. 10 3600 600 86400 3600'']\<rparr>"
  let ?a = "\<lparr>rr_name = ''example.com.'', rr_ttl = 3600, rr_rdclass = 1, rr_rdtype = 1,
      rr_items = [''192.0.2.1'', ''192.0.2.3'']\<rparr>"
  have q: "req_question ?request = ex_question 252 # []"
    by (simp add: ex_request_def)
  have c: "domain_criterion_from_request ex_conf ?request
             (Some [''name'' \<mapsto> Str (q_name (ex_question 252))])
           = Inr [''name'' \<mapsto> Str ''example.com.'', ''pool_id'' \<mapsto> Str ''p1'']"
    by (simp add: domain_criterion_from_request_def ex_request_def ex_conf_def ex_question_def)
  have d: "find_domain ex_collab (env_context (req_environ ?request))
             [''name'' \<mapsto> Str ''example.com.'', ''pool_id'' \<mapsto> Str ''p1''] = Inr ex_zone"
    by (simp add: ex_collab_def ex_find_domain_def)
  have s: "find_recordsets ex_collab (env_context (req_environ ?request))
             [''domain_id'' \<mapsto> Str (d_id ex_zone), ''type'' \<mapsto> Str ''SOA''] = Inr [ex_soa_rs]"
    by (simp add: ex_collab_def ex_find_recordsets_def)
  have r: "find_recordsets ex_collab (env_context (req_environ ?request))
             [''domain_id'' \<mapsto> Str (d_id ex_zone), ''type'' \<mapsto> Str ''!SOA'']
           = Inr [ex_a_rs, ex_deleted_rs]"
    by (simp add: ex_collab_def ex_find_recordsets_def)
  have p: "convert_to_rrset ex_collab ex_zone ex_soa_rs = Inr (Some ?soa)"
    "convert_to_rrset ex_collab ex_zone ex_a_rs = Inr (Some ?a)"
    "convert_to_rrset ex_collab ex_zone ex_deleted_rs = Inr None"
    by (simp_all add: convert_to_rrset_def from_text_list_def rdataclass_IN_def ex_soa_rs_def
        ex_a_rs_def ex_deleted_rs_def ex_zone_def ex_collab_def ex_name_from_text_def
        ex_rdatatype_from_text_def ex_rdata_from_text_def)
  have ps: "map (convert_to_rrset ex_collab ex_zone) [ex_soa_rs] = map Inr [Some ?soa]"
    "map (convert_to_rrset ex_collab ex_zone) [ex_a_rs, ex_deleted_rs] = map Inr [Some ?a, None]"
    by (simp_all add: p)
  from handle_axfr_framing [OF q c d s r ps] p show ?thesis
    by auto
qed

subsection \<open>Record query\<close>

text \<open>
  C10. A ZONE-scoped key replaces the record-set's owning zone: in the record-query
  responder the criterion starts as the id of the record-set's zone and criterion
  building overwrites that entry with the key's resource id. When the zone of the key
  exists and the record-set projects, the response is NOERROR with the AA flag and the
  projection of the record-set against the key's zone, whose TTL is the fallback, whether
  or not that zone owns the record-set.
\<close>

theorem zone_key_replaces_owner:
  assumes "req_question request = q_rrset # qs"
    and "find_recordset st (env_context (req_environ request))
           [''name'' \<mapsto> Str (q_name q_rrset),
            ''type'' \<mapsto> Str (rdatatype_to_text st (q_rdtype q_rrset)),
            ''domains_deleted'' \<mapsto> Bool False] = Inr recordset"
    and "env_tsigkey (req_environ request) = Some key"
    and "scope key = ''ZONE''"
    and "find_domain st (env_context (req_environ request)) [''id'' \<mapsto> Str (resource_id key)]
           = Inr domain"
    and "convert_to_rrset st domain recordset = Inr r_rrset"
  shows "domain_criterion_from_request conf request (Some [''id'' \<mapsto> Str (rs_domain_id recordset)])
           = Inr [''id'' \<mapsto> Str (resource_id key)]
         \<and> (\<exists>response. handle_record_query st conf request = Inr response
              \<and> resp_rcode response = NOERROR
              \<and> AA \<in> resp_flags response
              \<and> resp_answer response = [r_rrset]
              \<and> (\<forall>r. rs_ttl recordset = None \<and> r_rrset = Some r
                     \<longrightarrow> rr_ttl r = d_ttl domain))"
proof -
  have t: "rr_ttl r = d_ttl domain" if "rs_ttl recordset = None" "r_rrset = Some r" for r
    using that assms(6)
    by (auto simp add: convert_to_rrset_def from_text_list_def Let_def
        split: if_splits sum.splits)
  from assms t show ?thesis
    by (simp add: handle_record_query_def record_query_find_domain_def
        domain_criterion_from_request_def Let_def make_response_def)
qed

text \<open>
  A record-set of zone z1 queried with a key for zone z2 (TTL 300): answered with TTL 300.
\<close>

theorem zone_key_replaces_owner_witness:
  "rs_domain_id ex_a_rs \<noteq> d_id ex_key_zone
   \<and> (\<exists>response. handle_record_query ex_collab ex_conf
          (ex_request QUERY [ex_question 1] ''10.0.0.9'' (Some \<lparr>scope = ''ZONE'', resource_id = ''z2''\<rparr>))
        = Inr response
      \<and> resp_rcode response = NOERROR
      \<and> resp_answer response =
          [Some \<lparr>rr_name = ''example.com.'', rr_ttl = 300, rr_rdclass = rdataclass_IN,
                 rr_rdtype = 1, rr_items = [''192.0.2.1'', ''192.0.2.3'']\<rparr>])"
proof -
  let ?key = "\<lparr>scope = ''ZONE'', resource_id = ''z2''\<rparr>"
  let ?request = "ex_request QUERY [ex_question 1] ''10.0.0.9'' (Some ?key)"
  have q: "req_question ?request = ex_question 1 # []"
    by (simp add: ex_request_def)
  have r: "find_recordset ex_collab (env_context (req_environ ?request))
           [''name'' \<mapsto> Str (q_name (ex_question 1)),
            ''type'' \<mapsto> Str (rdatatype_to_text ex_collab (q_rdtype (ex_question 1))),
            ''domains_deleted'' \<mapsto> Bool False] = Inr ex_a_rs"
    by (simp add: ex_collab_def ex_find_recordset_def ex_question_def ex_to_text_def)
  have k: "env_tsigkey (req_environ ?request) = Some ?key" "scope ?key = ''ZONE''"
    by (simp_all add: ex_request_def)
  have d: "find_domain ex_collab (env_context (req_environ ?request)) [''id'' \<mapsto> Str (resource_id ?key)]
           = Inr ex_key_zone"
    by (simp add: ex_collab_def ex_find_domain_def)
  have c: "convert_to_rrset ex_collab ex_key_zone ex_a_rs =
     Inr (Some \<lparr>rr_name = ''example.com.'', rr_ttl = 300, rr_rdclass = rdataclass_IN,
           rr_rdtype = 1, rr_items = [''192.0.2.1'', ''192.0.2.3'']\<rparr>)"
    by (simp add: convert_to_rrset_def from_text_list_def ex_key_zone_def ex_a_rs_def
        ex_collab_def ex_name_from_text_def ex_rdatatype_from_text_def ex_rdata_from_text_def)
  have n: "rs_domain_id ex_a_rs \<noteq> d_id ex_key_zone"
    by (simp add: ex_key_zone_def ex_a_rs_def)
  from zone_key_replaces_owner [OF q r k d c, of ex_conf] n show ?thesis
    by auto
qed

subsection \<open>NOTIFY\<close>

text \<open>
  C7. NOTIFY from a non-master: for a NOTIFY with exactly one question that matches a
  SECONDARY zone, when the sender's address is not among the zone's masters the response
  is REFUSED, no thread is added and no query is sent through the resolver.
\<close>

theorem notify_from_non_master:
  assumes "req_question request = [question]"
    and "find_domain st (env_context (req_environ request))
           [''name'' \<mapsto> Str (q_name question), ''type'' \<mapsto> Str ''SECONDARY'',
            ''deleted'' \<mapsto> Bool False] = Inr domain"
    and "fst (env_addr (req_environ request)) \<notin> set (d_masters domain)"
  shows "\<exists>response w'. handle_notify st request w = (Inr response, w')
           \<and> resp_rcode response = REFUSED
           \<and> threads w' = threads w
           \<and> soa_queries w' = soa_queries w"
  using assms by (simp add: handle_notify_def get_master_by_ip_def Let_def)

text \<open>
  A NOTIFY for example.com. from 10.0.0.9, which is not a master of the zone.
\<close>

theorem notify_from_non_master_witness:
  "\<exists>response w'. handle_notify ex_collab (ex_request NOTIFY [ex_question 6] ''10.0.0.9'' None) ex_world
       = (Inr response, w')
     \<and> resp_rcode response = REFUSED
     \<and> threads w' = []
     \<and> soa_queries w' = []"
proof -
  let ?request = "ex_request NOTIFY [ex_question 6] ''10.0.0.9'' None"
  have q: "req_question ?request = [ex_question 6]"
    by (simp add: ex_request_def)
  have d: "find_domain ex_collab (env_context (req_environ ?request))
           [''name'' \<mapsto> Str (q_name (ex_question 6)), ''type'' \<mapsto> Str ''SECONDARY'',
            ''deleted'' \<mapsto> Bool False] = Inr ex_zone"
    by (simp add: ex_collab_def ex_find_domain_def ex_question_def)
  have m: "fst (env_addr (req_environ ?request)) \<notin> set (d_masters ex_zone)"
    by (simp add: ex_request_def ex_zone_def)
  from notify_from_non_master [OF q d m, of ex_world] show ?thesis
    by (simp add: ex_world_def)
qed

text \<open>
  C3. NOTIFY serial comparison: for a NOTIFY whose sender is a master of the matched
  SECONDARY zone and whose SOA query is answered, the response is NOERROR with the AA
  flag; when the serial of the answer equals the stored serial no thread is added, and
  when it differs exactly one thread is added, a zone sync with the address of the
  notifying master.
\<close>

theorem notify_serial_comparison:
  assumes "req_question request = [question]"
    and "find_domain st (env_context (req_environ request))
           [''name'' \<mapsto> Str (q_name question), ''type'' \<mapsto> Str ''SECONDARY'',
            ''deleted'' \<mapsto> Bool False] = Inr domain"
    and "notify_addr = fst (env_addr (req_environ request))"
    and "notify_addr \<in> set (d_masters domain)"
    and "resolver_query st [notify_addr] (d_name domain) ''SOA'' = Inr (soa # rest)"
  shows "\<exists>response w'. handle_notify st request w = (Inr response, w')
           \<and> resp_rcode response = NOERROR
           \<and> AA \<in> resp_flags response
           \<and> (soa_serial soa = d_serial domain \<longrightarrow> threads w' = threads w)
           \<and> (soa_serial soa \<noteq> d_serial domain \<longrightarrow>
                threads w' = threads w
                  @ [DomainSync (env_context (req_environ request)) domain [notify_addr]])
           \<and> soa_queries w' = soa_queries w @ [([notify_addr], d_name domain, ''SOA'')]"
  using assms by (simp add: handle_notify_def get_master_by_ip_def Let_def make_response_def)

text \<open>
  The first master reports the stored serial 10, the second reports 11.
\<close>

theorem notify_serial_comparison_witness:
  "(\<exists>response w'. handle_notify ex_collab (ex_request NOTIFY [ex_question 6] ''10.0.0.1'' None) ex_world
       = (Inr response, w')
     \<and> resp_rcode response = NOERROR \<and> AA \<in> resp_flags response
     \<and> threads w' = [])
   \<and> (\<exists>response w'. handle_notify ex_collab (ex_request NOTIFY [ex_question 6] ''10.0.0.2'' None) ex_world
       = (Inr response, w')
     \<and> resp_rcode response = NOERROR \<and> AA \<in> resp_flags response
     \<and> threads w' = [DomainSync ''ctx'' ex_zone [''10.0.0.2'']])"
proof -
  let ?r1 = "ex_request NOTIFY [ex_question 6] ''10.0.0.1'' None"
  let ?r2 = "ex_request NOTIFY [ex_question 6] ''10.0.0.2'' None"
  have q: "req_question ?r1 = [ex_question 6]" "req_question ?r2 = [ex_question 6]"
    by (simp_all add: ex_request_def)
  have d: "find_domain ex_collab (env_context (req_environ ?r1))
           [''name'' \<mapsto> Str (q_name (ex_question 6)), ''type'' \<mapsto> Str ''SECONDARY'',
            ''deleted'' \<mapsto> Bool False] = Inr ex_zone"
    "find_domain ex_collab (env_context (req_environ ?r2))
           [''name'' \<mapsto> Str (q_name (ex_question 6)), ''type'' \<mapsto> Str ''SECONDARY'',
            ''deleted'' \<mapsto> Bool False] = Inr ex_zone"
    by (simp_all add: ex_collab_def ex_find_domain_def ex_question_def)
  have a: "''10.0.0.1'' = fst (env_addr (req_environ ?r1))"
    "''10.0.0.2'' = fst (env_addr (req_environ ?r2))"
    by (simp_all add: ex_request_def)
  have m: "''10.0.0.1'' \<in> set (d_masters ex_zone)" "''10.0.0.2'' \<in> set (d_masters ex_zone)"
    by (simp_all add: ex_zone_def)
  have s: "resolver_query ex_collab [''10.0.0.1''] (d_name ex_zone) ''SOA'' = Inr (\<lparr>soa_serial = 10\<rparr> # [])"
    "resolver_query ex_collab [''10.0.0.2''] (d_name ex_zone) ''SOA'' = Inr (\<lparr>soa_serial = 11\<rparr> # [])"
    by (simp_all add: ex_collab_def ex_resolver_query_def)
  have e: "d_serial ex_zone = 10" "env_context (req_environ ?r2) = ''ctx''"
    by (simp_all add: ex_zone_def ex_request_def)
  from notify_serial_comparison [OF q(1) d(1) a(1) m(1) s(1), of ex_world]
    notify_serial_comparison [OF q(2) d(2) a(2) m(2) s(2), of ex_world] e
  show ?thesis
    by (auto simp add: ex_world_def)
qed

subsection \<open>The entry point\<close>

lemma handle_query_error_rcode: "resp_rcode (handle_query_error request rc) = rc"
  by (simp add: handle_query_error_def)

text \<open>
  C9. Dispatcher: a QUERY whose question section is not exactly one question of class IN
  is answered REFUSED; otherwise a question of type AXFR or IXFR goes to the
  zone-transfer responder and any other type to the record-query responder; an opcode
  that is neither QUERY nor NOTIFY is answered REFUSED.
\<close>

theorem call_dispatch:
  "(req_opcode request = QUERY
      \<and> \<not> (\<exists>q. req_question request = [q] \<and> q_rdclass q = rdataclass_IN) \<longrightarrow>
      (\<exists>response. call st conf request w = (Inr response, w) \<and> resp_rcode response = REFUSED))
   \<and> (req_opcode request = QUERY \<and> req_question request = [q] \<and> q_rdclass q = rdataclass_IN
        \<and> (q_rdtype q = rdatatype_AXFR \<or> q_rdtype q = rdatatype_IXFR) \<longrightarrow>
      call st conf request w = (handle_axfr st conf request, w))
   \<and> (req_opcode request = QUERY \<and> req_question request = [q] \<and> q_rdclass q = rdataclass_IN
        \<and> q_rdtype q \<noteq> rdatatype_AXFR \<and> q_rdtype q \<noteq> rdatatype_IXFR \<longrightarrow>
      call st conf request w = (handle_record_query st conf request, w))
   \<and> (req_opcode request \<noteq> QUERY \<and> req_opcode request \<noteq> NOTIFY \<longrightarrow>
      (\<exists>response. call st conf request w = (Inr response, w) \<and> resp_rcode response = REFUSED))"
proof (intro conjI impI)
  assume h: "req_opcode request = QUERY
      \<and> \<not> (\<exists>q. req_question request = [q] \<and> q_rdclass q = rdataclass_IN)"
  then have "length (req_question request) \<noteq> 1
      \<or> q_rdclass (hd (req_question request)) \<noteq> rdataclass_IN"
    by (cases "req_question request") auto
  with h show "\<exists>response. call st conf request w = (Inr response, w) \<and> resp_rcode response = REFUSED"
    by (auto simp add: call_def handle_query_error_rcode)
next
  assume "req_opcode request = QUERY \<and> req_question request = [q] \<and> q_rdclass q = rdataclass_IN
        \<and> (q_rdtype q = rdatatype_AXFR \<or> q_rdtype q = rdatatype_IXFR)"
  then show "call st conf request w = (handle_axfr st conf request, w)"
    by (auto simp add: call_def)
next
  assume "req_opcode request = QUERY \<and> req_question request = [q] \<and> q_rdclass q = rdataclass_IN
        \<and> q_rdtype q \<noteq> rdatatype_AXFR \<and> q_rdtype q \<noteq> rdatatype_IXFR"
  then show "call st conf request w = (handle_record_query st conf request, w)"
    by (simp add: call_def)
next
  assume "req_opcode request \<noteq> QUERY \<and> req_opcode request \<noteq> NOTIFY"
  then show "\<exists>response. call st conf request w = (Inr response, w) \<and> resp_rcode response = REFUSED"
    by (simp add: call_def handle_query_error_rcode)
qed

text \<open>
  Two questions; a question of class CH; AXFR; IXFR; A; opcode UPDATE; an unassigned opcode.
\<close>

theorem call_dispatch_witness:
  "(\<exists>response. call ex_collab ex_conf (ex_request QUERY [ex_question 1, ex_question 6] ''10.0.0.9'' None) ex_world
        = (Inr response, ex_world) \<and> resp_rcode response = REFUSED)
   \<and> (\<exists>response. call ex_collab ex_conf
          (ex_request QUERY [\<lparr>q_name = ''example.com.'', q_rdclass = 3, q_rdtype = 1\<rparr>] ''10.0.0.9'' None) ex_world
        = (Inr response, ex_world) \<and> resp_rcode response = REFUSED)
   \<and> call ex_collab ex_conf (ex_request QUERY [ex_question 252] ''10.0.0.9'' None) ex_world
        = (handle_axfr ex_collab ex_conf (ex_request QUERY [ex_question 252] ''10.0.0.9'' None), ex_world)
   \<and> call ex_collab ex_conf (ex_request QUERY [ex_question 251] ''10.0.0.9'' None) ex_world
        = (handle_axfr ex_collab ex_conf (ex_request QUERY [ex_question 251] ''10.0.0.9'' None), ex_world)
   \<and> call ex_collab ex_conf (ex_request QUERY [ex_question 1] ''10.0.0.9'' None) ex_world
        = (handle_record_query ex_collab ex_conf (ex_request QUERY [ex_question 1] ''10.0.0.9'' None), ex_world)
   \<and> (\<exists>response. call ex_collab ex_conf (ex_request UPDATE [ex_question 1] ''10.0.0.9'' None) ex_world
        = (Inr response, ex_world) \<and> resp_rcode response = REFUSED)
   \<and> (\<exists>response. call ex_collab ex_conf (ex_request (OtherOpcode 9) [ex_question 1] ''10.0.0.9'' None) ex_world
        = (Inr response, ex_world) \<and> resp_rcode response = REFUSED)"
  using
    call_dispatch [where request = "ex_request QUERY [ex_question 1, ex_question 6] ''10.0.0.9'' None"
      and st = ex_collab and conf = ex_conf and w = ex_world]
    call_dispatch [where request = "ex_request QUERY [\<lparr>q_name = ''example.com.'', q_rdclass = 3, q_rdtype = 1\<rparr>] ''10.0.0.9'' None"
      and st = ex_collab and conf = ex_conf and w = ex_world]
    call_dispatch [where request = "ex_request QUERY [ex_question 252] ''10.0.0.9'' None"
      and q = "ex_question 252" and st = ex_collab and conf = ex_conf and w = ex_world]
    call_dispatch [where request = "ex_request QUERY [ex_question 251] ''10.0.0.9'' None"
      and q = "ex_question 251" and st = ex_collab and conf = ex_conf and w = ex_world]
    call_dispatch [where request = "ex_request QUERY [ex_question 1] ''10.0.0.9'' None"
      and q = "ex_question 1" and st = ex_collab and conf = ex_conf and w = ex_world]
    call_dispatch [where request = "ex_request UPDATE [ex_question 1] ''10.0.0.9'' None"
      and st = ex_collab and conf = ex_conf and w = ex_world]
    call_dispatch [where request = "ex_request (OtherOpcode 9) [ex_question 1] ''10.0.0.9'' None"
      and st = ex_collab and conf = ex_conf and w = ex_world]
  by (simp add: ex_request_def ex_question_def rdataclass_IN_def rdatatype_AXFR_def rdatatype_IXFR_def)












end
